theory Spec2Isabelle
  imports Complex_Main
begin

section \<open>Data model\<close>

text \<open>
  The ledger engine is the set of server actions \<^verbatim>\<open>addMileageEntry\<close>,
  \<^verbatim>\<open>undoLastEntry\<close>, \<^verbatim>\<open>resetAndGetMessage\<close> and \<^verbatim>\<open>updateSettings\<close>; the
  store adapter is \<^verbatim>\<open>lib/database.ts\<close>.

  Modelling decisions:
  \<^item> \<^verbatim>\<open>User\<close> is the type the actions import from \<^verbatim>\<open>lib/database.ts\<close>,
    \<^verbatim>\<open>"Amit" | "John"\<close>, and the page passes both values. At run time a user is
    its name, and the fields that hold users can hold any string; the engine's own
    \<^verbatim>\<open>OTHER\<close> table writes the name \<^verbatim>\<open>"Ori"\<close> into them.
  \<^item> \<^verbatim>\<open>kmBy\<close> is a JavaScript object: a map from property names to numbers. Reading
    a property the object lacks gives \<^verbatim>\<open>undefined\<close> (\<open>None\<close>), and arithmetic on
    \<^verbatim>\<open>undefined\<close> gives \<^verbatim>\<open>NaN\<close>.
  \<^item> Odometer readings, distances and timestamps are \<open>int\<close> (JavaScript arithmetic on
    integers below \<open>2^53\<close> is exact); the price per km is \<open>rat\<close>. A number that a
    computation of the engine can turn into \<^verbatim>\<open>NaN\<close> is a \<open>jsnum\<close>. Non-integral
    readings are outside the model.
  \<^item> An optional or nullable field is an \<open>option\<close>; \<open>None\<close> stands for both
    \<^verbatim>\<open>undefined\<close> and \<^verbatim>\<open>null\<close>, which the code never tells apart there (it
    tests with \<^verbatim>\<open>!= null\<close>, \<^verbatim>\<open>??\<close> and truthiness).
  \<^item> \<^verbatim>\<open>throw new Error(msg)\<close> is the value \<open>Inl (Error msg)\<close>. Every throw of the
    engine happens before its first store call.
  \<^item> \<^verbatim>\<open>Date.now()\<close> and \<^verbatim>\<open>nowId()\<close> are inputs of the operations (\<open>now\<close>,
    \<open>newId\<close>); the locale formatters \<^verbatim>\<open>Intl.NumberFormat\<close> and
    \<^verbatim>\<open>toLocaleString\<close> are parameters.
  \<^item> The store calls an action makes (\<^verbatim>\<open>addEntry\<close>, \<^verbatim>\<open>removeEntry\<close>,
    \<^verbatim>\<open>saveAppState\<close>) are returned, in order, beside the new state; whether the
    store then accepts them is the store adapter's part.
\<close>

datatype user = Amit | John

fun user_name :: "user \<Rightarrow> string" where
  "user_name Amit = ''Amit''"
| "user_name John = ''John''"

text \<open>A JavaScript number that may be \<^verbatim>\<open>NaN\<close>; \<open>Null\<close> is what a \<^verbatim>\<open>NaN\<close>
  becomes when it has been through \<^verbatim>\<open>JSON.stringify\<close>.\<close>

datatype 'a jsnum = Num 'a | NaN | Null

datatype entry_type = TInit | TEntry | TReset

record snapshot =
  snap_kmBy :: "string \<rightharpoonup> int jsnum"
  snap_pricePerKm :: rat
  snap_totalKm :: "int jsnum"
  snap_totalAmount :: "rat jsnum"

record entry =
  entry_id :: string
  entry_type :: entry_type
  timestamp :: int
  reading :: "int option"
  deltaKm :: "int option"
  attributedTo :: "string option"
  enteredBy :: "string option"
  entry_note :: "string option"
  entry_snapshot :: "snapshot option"

record app_state =
  version :: int
  pricePerKm :: rat
  startingOdometer :: int
  lastOdometer :: "int option"
  kmBy :: "string \<rightharpoonup> int jsnum"
  history :: "entry list"
  lastEnteredBy :: "string option"

datatype error = Error string | DatabaseError

datatype store_op = AddEntry entry | RemoveEntry string | SaveAppState app_state

type_synonym action_result = "error + (app_state \<times> store_op list)"

section \<open>JavaScript arithmetic\<close>

text \<open>\<^verbatim>\<open>ToNumber\<close> of a property value: \<^verbatim>\<open>undefined\<close> and \<^verbatim>\<open>NaN\<close> are not
  numbers (\<open>None\<close>), \<^verbatim>\<open>null\<close> is 0.\<close>

definition to_number :: "'a::zero jsnum option \<Rightarrow> 'a option" where
  "to_number v =
     (case v of
        None \<Rightarrow> None
      | Some (Num n) \<Rightarrow> Some n
      | Some NaN \<Rightarrow> None
      | Some Null \<Rightarrow> Some 0)"

text \<open>\<^verbatim>\<open>a + b\<close>, \<^verbatim>\<open>a - b\<close> and \<^verbatim>\<open>a * pricePerKm\<close> on such values, and
  \<^verbatim>\<open>Math.max(0, a)\<close>: \<^verbatim>\<open>NaN\<close> as soon as an operand is not a number.\<close>

definition js_plus :: "int jsnum option \<Rightarrow> int jsnum option \<Rightarrow> int jsnum" where
  "js_plus a b =
     (case to_number a of
        None \<Rightarrow> NaN
      | Some m \<Rightarrow> (case to_number b of None \<Rightarrow> NaN | Some n \<Rightarrow> Num (m + n)))"

definition js_minus :: "int jsnum option \<Rightarrow> int jsnum option \<Rightarrow> int jsnum" where
  "js_minus a b =
     (case to_number a of
        None \<Rightarrow> NaN
      | Some m \<Rightarrow> (case to_number b of None \<Rightarrow> NaN | Some n \<Rightarrow> Num (m - n)))"

definition js_times_price :: "int jsnum option \<Rightarrow> rat \<Rightarrow> rat jsnum" where
  "js_times_price a p =
     (case to_number a of None \<Rightarrow> NaN | Some m \<Rightarrow> Num (of_int m * p))"

definition js_max_0 :: "int jsnum \<Rightarrow> int jsnum" where
  "js_max_0 a = (case to_number (Some a) of None \<Rightarrow> NaN | Some m \<Rightarrow> Num (max 0 m))"

text \<open>The property name a computed key \<^verbatim>\<open>[k]\<close> writes and reads: the string itself,
  and \<^verbatim>\<open>"undefined"\<close> for \<^verbatim>\<open>undefined\<close>.\<close>

definition property_key :: "string option \<Rightarrow> string" where
  "property_key k = (case k of None \<Rightarrow> ''undefined'' | Some s \<Rightarrow> s)"

section \<open>Ledger engine\<close>

text \<open>\<^verbatim>\<open>const OTHER: Record<User, User> = { Amit: "Ori", Ori: "Amit" }\<close>, indexed with
  the session user. The table has no property \<^verbatim>\<open>John\<close>.\<close>

definition OTHER_table :: "string \<rightharpoonup> string" where
  "OTHER_table = [''Amit'' \<mapsto> ''Ori'', ''Ori'' \<mapsto> ''Amit'']"

definition OTHER :: "user \<Rightarrow> string option" where
  "OTHER sessionUser = OTHER_table (user_name sessionUser)"

subsection \<open>addMileageEntry\<close>

text \<open>The common tail of \<^verbatim>\<open>addMileageEntry\<close>: the entry is sent to the store, the
  state is saved (before the entry is appended to the in-memory history), and the state
  with the entry appended is returned.\<close>

definition save_and_return :: "app_state \<Rightarrow> entry \<Rightarrow> action_result" where
  "save_and_return newState newEntry =
     Inr (newState\<lparr>history := history newState @ [newEntry]\<rparr>,
          [AddEntry newEntry, SaveAppState newState])"

definition addMileageEntry ::
  "user \<Rightarrow> int \<Rightarrow> string \<Rightarrow> int \<Rightarrow> app_state \<Rightarrow> action_result" where
  "addMileageEntry sessionUser r newId now currentState =
     (case lastOdometer currentState of
        None \<Rightarrow>
          (let newEntry =
                 \<lparr>entry_id = newId, entry_type = TInit, timestamp = now,
                  reading = Some r, deltaKm = None, attributedTo = None,
                  enteredBy = Some (user_name sessionUser),
                  entry_note = Some ''Initial reading set'', entry_snapshot = None\<rparr>;
               newState =
                 currentState\<lparr>startingOdometer := r, lastOdometer := Some r,
                               lastEnteredBy := Some (user_name sessionUser)\<rparr>
           in save_and_return newState newEntry)
      | Some lastOdo \<Rightarrow>
          (let delta = r - lastOdo in
           if delta < 0 then
             Inl (Error ''Mileage cannot decrease. Please check the value.'')
           else if delta = 0 then
             (let newEntry =
                    \<lparr>entry_id = newId, entry_type = TEntry, timestamp = now,
                     reading = Some r, deltaKm = Some 0,
                     attributedTo = OTHER sessionUser,
                     enteredBy = Some (user_name sessionUser),
                     entry_note = Some ''No change in km'', entry_snapshot = None\<rparr>;
                  newState =
                    currentState\<lparr>lastOdometer := Some r,
                                  lastEnteredBy := Some (user_name sessionUser)\<rparr>
              in save_and_return newState newEntry)
           else
             (let creditedUser = OTHER sessionUser;
                  newEntry =
                    \<lparr>entry_id = newId, entry_type = TEntry, timestamp = now,
                     reading = Some r, deltaKm = Some delta,
                     attributedTo = creditedUser,
                     enteredBy = Some (user_name sessionUser),
                     entry_note = None, entry_snapshot = None\<rparr>;
                  newState =
                    currentState
                      \<lparr>kmBy := (kmBy currentState)
                                 (property_key creditedUser \<mapsto>
                                    js_plus (kmBy currentState (property_key creditedUser))
                                            (Some (Num delta))),
                       lastOdometer := Some r,
                       lastEnteredBy := Some (user_name sessionUser)\<rparr>
              in save_and_return newState newEntry)))"

subsection \<open>undoLastEntry\<close>

text \<open>Both loops of \<^verbatim>\<open>undoLastEntry\<close> scan the history from its last index down
  to 0 and stop at the first hit: a search of the reversed list.\<close>

definition findLastEntry :: "entry list \<Rightarrow> entry option" where
  "findLastEntry h = find (\<lambda>e. entry_type e = TEntry) (rev h)"

definition findRestoreTo :: "entry list \<Rightarrow> int option" where
  "findRestoreTo h =
     (case find (\<lambda>e. reading e \<noteq> None) (rev h) of
        None \<Rightarrow> None
      | Some e \<Rightarrow> reading e)"

text \<open>\<^verbatim>\<open>lastEntry.deltaKm ?? 0\<close>.\<close>

definition deltaKm_or_0 :: "entry \<Rightarrow> int" where
  "deltaKm_or_0 e = (case deltaKm e of None \<Rightarrow> 0 | Some d \<Rightarrow> d)"

text \<open>\<^verbatim>\<open>(lastEntry.deltaKm ?? 0) > 0 && lastEntry.attributedTo\<close>: the name must be
  present and not the empty string.\<close>

definition undoKmBy :: "(string \<rightharpoonup> int jsnum) \<Rightarrow> entry \<Rightarrow> (string \<rightharpoonup> int jsnum)" where
  "undoKmBy km lastEntry =
     (case attributedTo lastEntry of
        Some a \<Rightarrow>
          (if deltaKm_or_0 lastEntry > 0 \<and> a \<noteq> []
           then km(a \<mapsto> js_max_0 (js_minus (km a) (Some (Num (deltaKm_or_0 lastEntry)))))
           else km)
      | None \<Rightarrow> km)"

definition undoLastEntry :: "app_state \<Rightarrow> action_result" where
  "undoLastEntry currentState =
     (case findLastEntry (history currentState) of
        None \<Rightarrow> Inl (Error ''No entry to undo'')
      | Some lastEntry \<Rightarrow>
          (let newHistory =
                 filter (\<lambda>e. entry_id e \<noteq> entry_id lastEntry) (history currentState);
               restoreTo = findRestoreTo newHistory;
               newKmBy = undoKmBy (kmBy currentState) lastEntry;
               newState =
                 currentState\<lparr>kmBy := newKmBy, lastOdometer := restoreTo,
                               history := newHistory\<rparr>
           in Inr (newState, [RemoveEntry (entry_id lastEntry), SaveAppState newState])))"

subsection \<open>resetAndGetMessage\<close>

text \<open>Decimal rendering of an integer, and of a value inside a template literal.\<close>

definition digit_char :: "nat \<Rightarrow> char" where
  "digit_char k = ''0123456789'' ! k"

fun show_nat :: "nat \<Rightarrow> string" where
  "show_nat n =
     (if n < 10 then [digit_char n] else show_nat (n div 10) @ [digit_char (n mod 10)])"

declare show_nat.simps [simp del]

definition show_int :: "int \<Rightarrow> string" where
  "show_int k = (if k < 0 then CHR ''-'' # show_nat (nat (- k)) else show_nat (nat k))"

definition show_js :: "int jsnum option \<Rightarrow> string" where
  "show_js v =
     (case v of
        None \<Rightarrow> ''undefined''
      | Some (Num n) \<Rightarrow> show_int n
      | Some NaN \<Rightarrow> ''NaN''
      | Some Null \<Rightarrow> ''null'')"

text \<open>\<^verbatim>\<open>.filter(Boolean)\<close> on an array of strings and \<^verbatim>\<open>undefined\<close> keeps the
  non-empty strings; \<^verbatim>\<open>.join("\n")\<close> puts a line feed between the elements.\<close>

fun filter_Boolean :: "string option list \<Rightarrow> string list" where
  "filter_Boolean [] = []"
| "filter_Boolean (None # xs) = filter_Boolean xs"
| "filter_Boolean (Some s # xs) = (if s = [] then filter_Boolean xs else s # filter_Boolean xs)"

fun join_lines :: "string list \<Rightarrow> string" where
  "join_lines [] = []"
| "join_lines [s] = s"
| "join_lines (s # t # ts) = s @ [CHR 0x0A] @ join_lines (t # ts)"

definition settlement_message ::
  "(rat jsnum \<Rightarrow> string) \<Rightarrow> (int \<Rightarrow> string) \<Rightarrow> int \<Rightarrow> app_state \<Rightarrow> string" where
  "settlement_message formatCurrency toLocaleString ts currentState =
     (let totalKm = js_plus (kmBy currentState ''Amit'') (kmBy currentState ''Ori'');
          totalAmount = js_times_price (Some totalKm) (pricePerKm currentState);
          amounts_Amit = js_times_price (kmBy currentState ''Amit'') (pricePerKm currentState);
          amounts_Ori = js_times_price (kmBy currentState ''Ori'') (pricePerKm currentState);
          dateStr = toLocaleString ts
      in join_lines (filter_Boolean
           [Some (''Fuel split reset ('' @ dateStr @ '')''),
            Some (''Price per km: '' @ formatCurrency (Num (pricePerKm currentState))),
            Some ''Totals since last reset:'',
            Some (''- Amit: '' @ show_js (kmBy currentState ''Amit'') @ '' km => ''
                    @ formatCurrency amounts_Amit),
            Some (''- Ori: '' @ show_js (kmBy currentState ''Ori'') @ '' km => ''
                    @ formatCurrency amounts_Ori),
            Some (''Total: '' @ show_js (Some totalKm) @ '' km => ''
                    @ formatCurrency totalAmount),
            (case lastOdometer currentState of
               Some lo \<Rightarrow> Some (''Odometer: '' @ show_int lo @ '' km'')
             | None \<Rightarrow> None),
            Some ''Please settle accordingly.'']))"

definition resetAndGetMessage ::
  "(rat jsnum \<Rightarrow> string) \<Rightarrow> (int \<Rightarrow> string) \<Rightarrow> string \<Rightarrow> int \<Rightarrow> app_state
     \<Rightarrow> string \<times> app_state \<times> store_op list" where
  "resetAndGetMessage formatCurrency toLocaleString newId ts currentState =
     (let totalKm = js_plus (kmBy currentState ''Amit'') (kmBy currentState ''Ori'');
          totalAmount = js_times_price (Some totalKm) (pricePerKm currentState);
          message = settlement_message formatCurrency toLocaleString ts currentState;
          resetEntry =
            \<lparr>entry_id = newId, entry_type = TReset, timestamp = ts,
             reading = None, deltaKm = None, attributedTo = None, enteredBy = None,
             entry_note = Some ''Reset & share'',
             entry_snapshot =
               Some \<lparr>snap_kmBy = kmBy currentState,
                     snap_pricePerKm = pricePerKm currentState,
                     snap_totalKm = totalKm, snap_totalAmount = totalAmount\<rparr>\<rparr>;
          newState =
            currentState
              \<lparr>startingOdometer :=
                 (case lastOdometer currentState of
                    Some lo \<Rightarrow> lo
                  | None \<Rightarrow> startingOdometer currentState),
               kmBy := [''Amit'' \<mapsto> Num 0, ''Ori'' \<mapsto> Num 0],
               history := history currentState @ [resetEntry]\<rparr>
      in (message, newState, [AddEntry resetEntry, SaveAppState newState]))"

subsection \<open>updateSettings\<close>

definition updateSettings :: "rat \<Rightarrow> int \<Rightarrow> app_state \<Rightarrow> action_result" where
  "updateSettings newPricePerKm newStartingOdometer currentState =
     (if newPricePerKm \<le> 0 then Inl (Error ''Price per km must be greater than 0.'')
      else if newStartingOdometer < 0 then Inl (Error ''Starting mileage must be >= 0.'')
      else
        (let newState =
               currentState
                 \<lparr>pricePerKm := newPricePerKm,
                  startingOdometer :=
                    (case lastOdometer currentState of
                       None \<Rightarrow> newStartingOdometer
                     | Some _ \<Rightarrow> startingOdometer currentState)\<rparr>
         in Inr (newState, [SaveAppState newState])))"

section \<open>Callers and error names\<close>

text \<open>Every handler of the page calls its action inside \<^verbatim>\<open>try\<close>, replaces its
  state with the returned one on success (\<^verbatim>\<open>setState(newState)\<close>) and only shows
  the message on failure. \<open>state_after s res\<close> is the state the caller holds after an
  action started from \<open>s\<close> ended with \<open>res\<close>.\<close>

definition state_after :: "app_state \<Rightarrow> action_result \<Rightarrow> app_state" where
  "state_after s res = (case res of Inl _ \<Rightarrow> s | Inr (s', _) \<Rightarrow> s')"

text \<open>The failure classes of the specification, as the errors the engine throws.\<close>

definition InvalidReading :: error where
  "InvalidReading = Error ''Mileage cannot decrease. Please check the value.''"

definition NothingToUndo :: error where
  "NothingToUndo = Error ''No entry to undo''"

definition is_InvalidSettings :: "error \<Rightarrow> bool" where
  "is_InvalidSettings e =
     (e = Error ''Price per km must be greater than 0.'' \<or>
      e = Error ''Starting mileage must be >= 0.'')"

section \<open>Store adapter\<close>

subsection \<open>The history table\<close>

text \<open>A row of \<^verbatim>\<open>fuel_split_entries\<close>, with the column types of the schema script:
  \<^verbatim>\<open>id VARCHAR(50)\<close>, \<^verbatim>\<open>timestamp BIGINT\<close>, \<^verbatim>\<open>reading INTEGER\<close>,
  \<^verbatim>\<open>delta_km INTEGER\<close>, \<^verbatim>\<open>attributed_to VARCHAR(10)\<close>,
  \<^verbatim>\<open>entered_by VARCHAR(10)\<close>, \<^verbatim>\<open>note TEXT\<close>, \<^verbatim>\<open>snapshot_data JSONB\<close>. The
  \<^verbatim>\<open>type\<close> column holds one of the three type names, each within its
  \<^verbatim>\<open>VARCHAR(10)\<close> and its \<^verbatim>\<open>CHECK\<close>.\<close>

record entry_row =
  row_id :: string
  row_type :: entry_type
  row_timestamp :: int
  row_reading :: "int option"
  delta_km :: "int option"
  attributed_to :: "string option"
  entered_by :: "string option"
  row_note :: "string option"
  snapshot_data :: "snapshot option"

text \<open>\<^verbatim>\<open>v || null\<close>: every falsy value becomes \<^verbatim>\<open>null\<close>. For a number that is
  \<^verbatim>\<open>undefined\<close> and 0, for a string \<^verbatim>\<open>undefined\<close> and the empty string.\<close>

definition or_null_number :: "int option \<Rightarrow> int option" where
  "or_null_number v = (case v of None \<Rightarrow> None | Some n \<Rightarrow> if n = 0 then None else Some n)"

definition or_null_string :: "string option \<Rightarrow> string option" where
  "or_null_string v = (case v of None \<Rightarrow> None | Some s \<Rightarrow> if s = [] then None else Some s)"

text \<open>\<^verbatim>\<open>JSON.stringify\<close> writes a \<^verbatim>\<open>NaN\<close> as \<^verbatim>\<open>null\<close>; the snapshot read back
  from the \<^verbatim>\<open>JSONB\<close> column has \<^verbatim>\<open>null\<close> in its place.\<close>

definition json_number :: "'a jsnum \<Rightarrow> 'a jsnum" where
  "json_number v = (case v of NaN \<Rightarrow> Null | Num n \<Rightarrow> Num n | Null \<Rightarrow> Null)"

definition JSON_stringify :: "snapshot \<Rightarrow> snapshot" where
  "JSON_stringify snap =
     \<lparr>snap_kmBy = (\<lambda>k. map_option json_number (snap_kmBy snap k)),
      snap_pricePerKm = snap_pricePerKm snap,
      snap_totalKm = json_number (snap_totalKm snap),
      snap_totalAmount = json_number (snap_totalAmount snap)\<rparr>"

text \<open>The \<^verbatim>\<open>VALUES\<close> tuple of \<^verbatim>\<open>addHistoryEntry\<close>.\<close>

definition insert_values :: "entry \<Rightarrow> entry_row" where
  "insert_values e =
     \<lparr>row_id = entry_id e, row_type = entry_type e, row_timestamp = timestamp e,
      row_reading = or_null_number (reading e),
      delta_km = or_null_number (deltaKm e),
      attributed_to = or_null_string (attributedTo e),
      entered_by = or_null_string (enteredBy e),
      row_note = or_null_string (entry_note e),
      snapshot_data = map_option JSON_stringify (entry_snapshot e)\<rparr>"

text \<open>Whether the values fit their columns: the two \<^verbatim>\<open>INTEGER\<close> columns take 32-bit
  integers, the \<^verbatim>\<open>BIGINT\<close> column 64-bit ones, a \<^verbatim>\<open>VARCHAR(n)\<close> column strings of
  at most \<open>n\<close> characters.\<close>

definition fits_INTEGER :: "int option \<Rightarrow> bool" where
  "fits_INTEGER v =
     (case v of None \<Rightarrow> True | Some n \<Rightarrow> - 2147483648 \<le> n \<and> n \<le> 2147483647)"

definition fits_BIGINT :: "int \<Rightarrow> bool" where
  "fits_BIGINT n = (- 9223372036854775808 \<le> n \<and> n \<le> 9223372036854775807)"



text \<open>What the table takes from the values of an \<^verbatim>\<open>INSERT\<close>. An integer outside
  its column's range is an error. A string longer than its \<^verbatim>\<open>VARCHAR(n)\<close> column is
  an error too, unless all it has beyond \<open>n\<close> characters are spaces, which the column
  cuts off. \<open>None\<close> is the error.\<close>

definition to_VARCHAR :: "nat \<Rightarrow> string \<Rightarrow> string option" where
  "to_VARCHAR n s =
     (if length s \<le> n then Some s
      else if list_all (\<lambda>c. c = CHR '' '') (drop n s) then Some (take n s)
      else None)"

definition to_nullable_VARCHAR :: "nat \<Rightarrow> string option \<Rightarrow> string option option" where
  "to_nullable_VARCHAR n v =
     (case v of None \<Rightarrow> Some None | Some s \<Rightarrow> map_option Some (to_VARCHAR n s))"

definition column_values :: "entry_row \<Rightarrow> entry_row option" where
  "column_values r =
     (if fits_BIGINT (row_timestamp r) \<and> fits_INTEGER (row_reading r)
         \<and> fits_INTEGER (delta_km r)
      then
        (case to_VARCHAR 50 (row_id r) of
           None \<Rightarrow> None
         | Some i \<Rightarrow>
             (case to_nullable_VARCHAR 10 (attributed_to r) of
                None \<Rightarrow> None
              | Some a \<Rightarrow>
                  (case to_nullable_VARCHAR 10 (entered_by r) of
                     None \<Rightarrow> None
                   | Some b \<Rightarrow>
                       Some (r\<lparr>row_id := i, attributed_to := a, entered_by := b\<rparr>))))
      else None)"

text \<open>\<^verbatim>\<open>INSERT ... ON CONFLICT (id) DO NOTHING\<close>. When the \<^verbatim>\<open>INSERT\<close> fails,
  \<^verbatim>\<open>addHistoryEntry\<close> logs the error and throws it again.\<close>

definition addHistoryEntry :: "entry \<Rightarrow> entry_row list \<Rightarrow> error + entry_row list" where
  "addHistoryEntry e tbl =
     (case column_values (insert_values e) of
        None \<Rightarrow> Inl DatabaseError
      | Some r \<Rightarrow>
          if row_id r \<in> row_id ` set tbl then Inr tbl else Inr (tbl @ [r]))"

definition removeHistoryEntry :: "string \<Rightarrow> entry_row list \<Rightarrow> entry_row list" where
  "removeHistoryEntry entryId tbl = filter (\<lambda>r. row_id r \<noteq> entryId) tbl"

subsection \<open>Loading the state\<close>

text \<open>A row of \<^verbatim>\<open>fuel_split_state\<close> as the \<^verbatim>\<open>SELECT\<close> of \<^verbatim>\<open>getAppState\<close> names
  its columns.\<close>

record state_row =
  row_version :: int
  price_per_km :: rat
  starting_odometer :: int
  last_odometer :: "int option"
  amit_km :: int
  john_km :: int
  last_entered_by :: "string option"

text \<open>The row-to-entry mapping of \<^verbatim>\<open>getAppState\<close>.\<close>

definition entry_of_row :: "entry_row \<Rightarrow> entry" where
  "entry_of_row r =
     \<lparr>entry_id = row_id r, entry_type = row_type r, timestamp = row_timestamp r,
      reading = row_reading r, deltaKm = delta_km r, attributedTo = attributed_to r,
      enteredBy = entered_by r, entry_note = row_note r, entry_snapshot = snapshot_data r\<rparr>"

text \<open>\<^verbatim>\<open>getAppState\<close>, from the results of its two queries: the state rows, newest
  first, and the history rows in ascending order of their timestamps.\<close>

definition getAppState :: "state_row list \<Rightarrow> entry_row list \<Rightarrow> error + app_state" where
  "getAppState stateResult historyResult =
     (case stateResult of
        [] \<Rightarrow> Inl (Error ''No state found in database'')
      | state # _ \<Rightarrow>
          Inr \<lparr>version = row_version state,
               pricePerKm = price_per_km state,
               startingOdometer = starting_odometer state,
               lastOdometer = last_odometer state,
               kmBy = [''Amit'' \<mapsto> Num (amit_km state), ''John'' \<mapsto> Num (john_km state)],
               history = map entry_of_row historyResult,
               lastEnteredBy = last_entered_by state\<rparr>)"

section \<open>Reachable states and the balance of the history\<close>

text \<open>The state of a fresh installation: what \<^verbatim>\<open>getAppState\<close> returns for the row
  the schema script inserts and an empty history.\<close>

definition seed_row :: state_row where
  "seed_row =
     \<lparr>row_version = 1, price_per_km = 1 / 2, starting_odometer = 0, last_odometer = None,
      amit_km = 0, john_km = 0, last_entered_by = None\<rparr>"

definition initial_state :: app_state where
  "initial_state =
     \<lparr>version = 1, pricePerKm = 1 / 2, startingOdometer = 0, lastOdometer = None,
      kmBy = [''Amit'' \<mapsto> Num 0, ''John'' \<mapsto> Num 0], history = [], lastEnteredBy = None\<rparr>"

text \<open>\<^verbatim>\<open>nowId()\<close> concatenates the clock and six random characters; the identifier
  it returns is taken as one that no record of the history carries yet.\<close>

definition fresh_id :: "string \<Rightarrow> app_state \<Rightarrow> bool" where
  "fresh_id newId s = (newId \<notin> entry_id ` set (history s))"

inductive reachable :: "app_state \<Rightarrow> bool" where
  reach_initial: "reachable initial_state"
| reach_addMileageEntry:
    "reachable s \<Longrightarrow> fresh_id newId s \<Longrightarrow>
     addMileageEntry u r newId now s = Inr (s', ops) \<Longrightarrow> reachable s'"
| reach_undoLastEntry:
    "reachable s \<Longrightarrow> undoLastEntry s = Inr (s', ops) \<Longrightarrow> reachable s'"
| reach_resetAndGetMessage:
    "reachable s \<Longrightarrow> fresh_id newId s \<Longrightarrow>
     resetAndGetMessage formatCurrency toLocaleString newId ts s = (msg, s', ops) \<Longrightarrow>
     reachable s'"
| reach_updateSettings:
    "reachable s \<Longrightarrow> updateSettings p odo s = Inr (s', ops) \<Longrightarrow> reachable s'"

text \<open>The records after the latest reset record (all records when there is none), and
  the sum of \<^verbatim>\<open>deltaKm\<close> over the entry-type records of a list.\<close>

definition entries_since_reset :: "entry list \<Rightarrow> entry list" where
  "entries_since_reset h = rev (takeWhile (\<lambda>e. entry_type e \<noteq> TReset) (rev h))"

definition sum_deltaKm :: "entry list \<Rightarrow> int" where
  "sum_deltaKm es = sum_list (map deltaKm_or_0 (filter (\<lambda>e. entry_type e = TEntry) es))"

text \<open>What every reachable state keeps: unique record identifiers, and a
  \<^verbatim>\<open>lastOdometer\<close> that is the newest reading of the history.\<close>

definition history_inv :: "app_state \<Rightarrow> bool" where
  "history_inv s =
     (distinct (map entry_id (history s)) \<and> findRestoreTo (history s) = lastOdometer s)"

section \<open>Example values\<close>

text \<open>The flow of the README: the car is at 1000 km when Amit enters the first
  reading; Amit drives, John gets in and enters 1180; John drives, Amit gets in and
  enters 1227.\<close>

definition init_entry_1000 :: entry where
  "init_entry_1000 =
     \<lparr>entry_id = ''e1'', entry_type = TInit, timestamp = 1, reading = Some 1000,
      deltaKm = None, attributedTo = None, enteredBy = Some ''Amit'',
      entry_note = Some ''Initial reading set'', entry_snapshot = None\<rparr>"

definition state_1000 :: app_state where
  "state_1000 =
     \<lparr>version = 1, pricePerKm = 1 / 2, startingOdometer = 1000, lastOdometer = Some 1000,
      kmBy = [''Amit'' \<mapsto> Num 0, ''John'' \<mapsto> Num 0], history = [init_entry_1000],
      lastEnteredBy = Some ''Amit''\<rparr>"

definition entry_1180 :: entry where
  "entry_1180 =
     \<lparr>entry_id = ''e2'', entry_type = TEntry, timestamp = 2, reading = Some 1180,
      deltaKm = Some 180, attributedTo = None, enteredBy = Some ''John'',
      entry_note = None, entry_snapshot = None\<rparr>"

definition state_1180 :: app_state where
  "state_1180 =
     \<lparr>version = 1, pricePerKm = 1 / 2, startingOdometer = 1000, lastOdometer = Some 1180,
      kmBy = [''Amit'' \<mapsto> Num 0, ''John'' \<mapsto> Num 0, ''undefined'' \<mapsto> NaN],
      history = [init_entry_1000, entry_1180], lastEnteredBy = Some ''John''\<rparr>"

definition entry_1227 :: entry where
  "entry_1227 =
     \<lparr>entry_id = ''e3'', entry_type = TEntry, timestamp = 3, reading = Some 1227,
      deltaKm = Some 47, attributedTo = Some ''Ori'', enteredBy = Some ''Amit'',
      entry_note = None, entry_snapshot = None\<rparr>"

definition state_1227 :: app_state where
  "state_1227 =
     \<lparr>version = 1, pricePerKm = 1 / 2, startingOdometer = 1000, lastOdometer = Some 1227,
      kmBy = [''Amit'' \<mapsto> Num 0, ''John'' \<mapsto> Num 0, ''undefined'' \<mapsto> NaN,
              ''Ori'' \<mapsto> NaN],
      history = [init_entry_1000, entry_1180, entry_1227], lastEnteredBy = Some ''Amit''\<rparr>"

text \<open>A first reading of 0 and its row in the history table; the state row after that
  reading; and the state \<^verbatim>\<open>getAppState\<close> returns for the two.\<close>

definition init_entry_0 :: entry where
  "init_entry_0 =
     \<lparr>entry_id = ''e1'', entry_type = TInit, timestamp = 1, reading = Some 0,
      deltaKm = None, attributedTo = None, enteredBy = Some ''Amit'',
      entry_note = Some ''Initial reading set'', entry_snapshot = None\<rparr>"

definition state_row_0 :: state_row where
  "state_row_0 =
     \<lparr>row_version = 1, price_per_km = 1 / 2, starting_odometer = 0, last_odometer = Some 0,
      amit_km = 0, john_km = 0, last_entered_by = Some ''Amit''\<rparr>"

definition state_reloaded_0 :: app_state where
  "state_reloaded_0 =
     \<lparr>version = 1, pricePerKm = 1 / 2, startingOdometer = 0, lastOdometer = Some 0,
      kmBy = [''Amit'' \<mapsto> Num 0, ''John'' \<mapsto> Num 0],
      history = [init_entry_0\<lparr>reading := None\<rparr>], lastEnteredBy = Some ''Amit''\<rparr>"






section \<open>Lemmas on histories\<close>

lemma filter_other_ids:
  "entry_id x \<notin> entry_id ` set xs \<Longrightarrow> filter (\<lambda>y. entry_id y \<noteq> entry_id x) xs = xs"
  by (induction xs) auto

lemma find_append_hit:
  "\<forall>x\<in>set xs. \<not> P x \<Longrightarrow> P y \<Longrightarrow> find P (xs @ y # ys) = Some y"
  by (induction xs) auto

lemma findLastEntry_None_iff:
  "findLastEntry h = None \<longleftrightarrow> (\<forall>e\<in>set h. entry_type e \<noteq> TEntry)"
  by (auto simp: findLastEntry_def find_None_iff)

lemma findLastEntry_split:
  assumes "entry_type e = TEntry" and "\<forall>x\<in>set post. entry_type x \<noteq> TEntry"
  shows "findLastEntry (pre @ e # post) = Some e"
  using assms by (simp add: findLastEntry_def find_append_hit)

lemma filter_split_distinct:
  assumes "distinct (map entry_id (pre @ e # post))"
  shows "filter (\<lambda>x. entry_id x \<noteq> entry_id e) (pre @ e # post) = pre @ post"
proof -
  from assms have "entry_id e \<notin> entry_id ` set pre" and "entry_id e \<notin> entry_id ` set post"
    by auto
  then show ?thesis by (simp add: filter_other_ids)
qed

section \<open>What the reachable states keep\<close>

lemma inv_initial: "history_inv initial_state"
  by (simp add: history_inv_def initial_state_def findRestoreTo_def)

lemma inv_addMileageEntry:
  assumes "history_inv s" and "fresh_id newId s"
    and "addMileageEntry u r newId now s = Inr (s', ops)"
  shows "history_inv s'"
proof (cases "lastOdometer s")
  case None
  with assms show ?thesis
    by (auto simp: addMileageEntry_def save_and_return_def Let_def history_inv_def fresh_id_def
          findRestoreTo_def)
next
  case (Some lo)
  with assms show ?thesis
    by (auto simp: addMileageEntry_def save_and_return_def Let_def history_inv_def fresh_id_def
          findRestoreTo_def split: if_splits)
qed

lemma inv_resetAndGetMessage:
  assumes "history_inv s" and "fresh_id newId s"
    and "resetAndGetMessage formatCurrency toLocaleString newId ts s = (msg, s', ops)"
  shows "history_inv s'"
  using assms
  by (auto simp: resetAndGetMessage_def Let_def history_inv_def fresh_id_def findRestoreTo_def)

lemma inv_updateSettings:
  assumes "history_inv s" and "updateSettings p odo s = Inr (s', ops)"
  shows "history_inv s'"
  using assms
  by (auto simp: updateSettings_def Let_def history_inv_def split: if_splits)

lemma inv_undoLastEntry:
  assumes "history_inv s" and "undoLastEntry s = Inr (s', ops)"
  shows "history_inv s'"
  using assms
  by (auto simp: undoLastEntry_def Let_def history_inv_def distinct_map_filter
        split: option.splits)

lemma reachable_inv: "reachable s \<Longrightarrow> history_inv s"
proof (induction rule: reachable.induct)
  case reach_initial
  show ?case by (rule inv_initial)
next
  case (reach_addMileageEntry s newId u r now s' ops)
  then show ?case by (blast intro: inv_addMileageEntry)
next
  case (reach_undoLastEntry s s' ops)
  then show ?case by (blast intro: inv_undoLastEntry)
next
  case (reach_resetAndGetMessage s newId formatCurrency toLocaleString ts msg s' ops)
  then show ?case by (blast intro: inv_resetAndGetMessage)
next
  case (reach_updateSettings s p odo s' ops)
  then show ?case by (blast intro: inv_updateSettings)
qed

text \<open>Every reachable state has unique record identifiers and a \<^verbatim>\<open>lastOdometer\<close>
  equal to the newest reading of its history.\<close>

lemma reachable_well_formed:
  assumes "reachable s"
  shows "distinct (map entry_id (history s))"
    and "findRestoreTo (history s) = lastOdometer s"
  using reachable_inv[OF assms] by (simp_all add: history_inv_def)

text \<open>Within a session, where the history still carries every reading, the undo of a
  reading just recorded puts \<^verbatim>\<open>lastOdometer\<close> and the history back.\<close>

lemma in_session_undo_restores_lastOdometer:
  assumes "reachable s" and "lastOdometer s = Some l" and "l \<le> r" and "fresh_id newId s"
  shows "\<exists>s1 ops1 s2 ops2.
           addMileageEntry u r newId now s = Inr (s1, ops1)
         \<and> undoLastEntry s1 = Inr (s2, ops2)
         \<and> lastOdometer s2 = lastOdometer s \<and> history s2 = history s"
proof -
  from assms(4) have flt: "filter (\<lambda>y. entry_id y \<noteq> newId) (history s) = history s"
    by (auto simp: fresh_id_def filter_id_conv)
  from reachable_well_formed(2)[OF assms(1)] assms(2)
  have rst: "findRestoreTo (history s) = Some l" by simp
  show ?thesis
  proof (cases "r = l")
    case True
    with assms(2) flt rst show ?thesis
      by (simp add: addMileageEntry_def save_and_return_def undoLastEntry_def
            findLastEntry_def Let_def)
  next
    case False
    with assms(2,3) flt rst show ?thesis
      by (simp add: addMileageEntry_def save_and_return_def undoLastEntry_def
            findLastEntry_def Let_def)
  qed
qed

section \<open>The flow of the README, step by step\<close>

lemma getAppState_fresh: "getAppState [seed_row] [] = Inr initial_state"
  by (simp add: getAppState_def seed_row_def initial_state_def)

lemma readme_step_1000:
  "addMileageEntry Amit 1000 ''e1'' 1 initial_state =
     Inr (state_1000, [AddEntry init_entry_1000, SaveAppState (state_1000\<lparr>history := []\<rparr>)])"
  by (simp add: addMileageEntry_def save_and_return_def initial_state_def state_1000_def
        init_entry_1000_def Let_def)

lemma readme_step_1180:
  "addMileageEntry John 1180 ''e2'' 2 state_1000 =
     Inr (state_1180,
          [AddEntry entry_1180, SaveAppState (state_1180\<lparr>history := [init_entry_1000]\<rparr>)])"
  by (simp add: addMileageEntry_def save_and_return_def state_1000_def state_1180_def
        entry_1180_def Let_def OTHER_def OTHER_table_def property_key_def js_plus_def
        to_number_def)

lemma readme_step_1227:
  "addMileageEntry Amit 1227 ''e3'' 3 state_1180 =
     Inr (state_1227,
          [AddEntry entry_1227,
           SaveAppState (state_1227\<lparr>history := [init_entry_1000, entry_1180]\<rparr>)])"
  by (simp add: addMileageEntry_def save_and_return_def state_1180_def state_1227_def
        entry_1227_def Let_def OTHER_def OTHER_table_def property_key_def js_plus_def
        to_number_def)

lemma reachable_state_1227: "reachable state_1227"
proof -
  have f1: "fresh_id ''e1'' initial_state"
    by (simp add: fresh_id_def initial_state_def)
  have r1: "reachable state_1000"
    by (rule reach_addMileageEntry[OF reach_initial f1 readme_step_1000])
  have f2: "fresh_id ''e2'' state_1000"
    by (simp add: fresh_id_def state_1000_def init_entry_1000_def)
  have r2: "reachable state_1180"
    by (rule reach_addMileageEntry[OF r1 f2 readme_step_1180])
  have f3: "fresh_id ''e3'' state_1180"
    by (simp add: fresh_id_def state_1180_def init_entry_1000_def entry_1180_def)
  show ?thesis
    by (rule reach_addMileageEntry[OF r2 f3 readme_step_1227])
qed




text \<open>The state a page loads after a first reading of 0: the history row of the
  reading is stored without it, the state row keeps it.\<close>

lemma stored_first_reading_0:
  "addHistoryEntry init_entry_0 [] = Inr [insert_values init_entry_0]"
  "getAppState [state_row_0] [insert_values init_entry_0] = Inr state_reloaded_0"
  by (simp_all add: addHistoryEntry_def getAppState_def insert_values_def entry_of_row_def
        init_entry_0_def state_row_0_def state_reloaded_0_def or_null_number_def
        or_null_string_def column_values_def to_VARCHAR_def to_nullable_VARCHAR_def
        fits_INTEGER_def fits_BIGINT_def)

section \<open>The claims\<close>

text \<open>
  Claim C1. For every state reachable from the initial state by engine operations,
  the sum of the two users' \<^verbatim>\<open>kmBy\<close> values equals the sum of the \<^verbatim>\<open>deltaKm\<close>
  fields of the entry-type records of the history after the latest reset record.

  The code breaks this on the flow of the README. \<^verbatim>\<open>OTHER\<close> has no property
  \<^verbatim>\<open>John\<close>, so a reading John enters records its distance in the history and
  credits the property \<^verbatim>\<open>"undefined"\<close>; a reading Amit enters credits the property
  \<^verbatim>\<open>"Ori"\<close>. After the three readings the history holds 180 + 47 km and the totals
  of both users, Amit and John, are still 0.
\<close>

theorem readme_flow_credits_no_user:
  "reachable state_1227
   \<and> kmBy state_1227 ''Amit'' = Some (Num 0)
   \<and> kmBy state_1227 ''John'' = Some (Num 0)
   \<and> js_plus (kmBy state_1227 ''Amit'') (kmBy state_1227 ''John'') = Num 0
   \<and> sum_deltaKm (entries_since_reset (history state_1227)) = 227"
proof -
  have "sum_deltaKm (entries_since_reset (history state_1227)) = 227"
    by (simp add: sum_deltaKm_def entries_since_reset_def state_1227_def init_entry_1000_def
          entry_1180_def entry_1227_def deltaKm_or_0_def)
  moreover have "kmBy state_1227 ''Amit'' = Some (Num 0)"
    and "kmBy state_1227 ''John'' = Some (Num 0)"
    by (simp_all add: state_1227_def)
  ultimately show ?thesis
    using reachable_state_1227 by (simp add: js_plus_def to_number_def)
qed

text \<open>
  Claim C2. For every state whose \<^verbatim>\<open>lastOdometer\<close> is set, every submitting user
  and every reading above \<^verbatim>\<open>lastOdometer\<close>, \<^verbatim>\<open>addMileageEntry\<close> appends an entry
  whose \<^verbatim>\<open>attributedTo\<close> is the other user and adds the distance to the \<^verbatim>\<open>kmBy\<close>
  total of that other user only.

  The code does not. When John enters 1180 at 1000, the entry has no
  \<^verbatim>\<open>attributedTo\<close> and Amit's total stays as it was; the 180 km go, as \<^verbatim>\<open>NaN\<close>,
  to the property \<^verbatim>\<open>"undefined"\<close>. When Amit then enters 1227, the entry is
  attributed to \<^verbatim>\<open>"Ori"\<close>, John's total stays as it was, and the property
  \<^verbatim>\<open>"Ori"\<close> becomes \<^verbatim>\<open>NaN\<close>.
\<close>

theorem other_user_is_not_credited:
  "addMileageEntry John 1180 ''e2'' 2 state_1000 =
     Inr (state_1180,
          [AddEntry entry_1180, SaveAppState (state_1180\<lparr>history := [init_entry_1000]\<rparr>)])
   \<and> history state_1180 = history state_1000 @ [entry_1180]
   \<and> attributedTo entry_1180 = None
   \<and> deltaKm entry_1180 = Some 180
   \<and> kmBy state_1180 ''Amit'' = kmBy state_1000 ''Amit''
   \<and> kmBy state_1180 ''John'' = kmBy state_1000 ''John''
   \<and> kmBy state_1180 ''undefined'' = Some NaN
   \<and> addMileageEntry Amit 1227 ''e3'' 3 state_1180 =
       Inr (state_1227,
            [AddEntry entry_1227,
             SaveAppState (state_1227\<lparr>history := [init_entry_1000, entry_1180]\<rparr>)])
   \<and> history state_1227 = history state_1180 @ [entry_1227]
   \<and> attributedTo entry_1227 = Some ''Ori''
   \<and> deltaKm entry_1227 = Some 47
   \<and> kmBy state_1227 ''John'' = kmBy state_1180 ''John''
   \<and> kmBy state_1227 ''Amit'' = kmBy state_1180 ''Amit''
   \<and> kmBy state_1227 ''Ori'' = Some NaN"
  using readme_step_1180 readme_step_1227
  by (simp add: state_1000_def state_1180_def state_1227_def entry_1180_def entry_1227_def)

text \<open>
  Claim C3. For every state whose \<^verbatim>\<open>lastOdometer\<close> is set and every reading strictly
  below it, \<^verbatim>\<open>addMileageEntry\<close> fails with \<open>InvalidReading\<close>; the failure carries no
  new state and no store call, so the caller's state is exactly the input state and no
  entry is created. Consequently a call of \<^verbatim>\<open>addMileageEntry\<close>, whatever the reading,
  never leaves the caller with a lower \<^verbatim>\<open>lastOdometer\<close>.
\<close>

theorem decreasing_reading_rejected:
  assumes "lastOdometer s = Some l"
  shows "(r < l \<longrightarrow>
            addMileageEntry u r newId now s = Inl InvalidReading
          \<and> state_after s (addMileageEntry u r newId now s) = s)
       \<and> (\<exists>l'. lastOdometer (state_after s (addMileageEntry u r newId now s)) = Some l'
                \<and> l \<le> l')"
  using assms
  by (simp add: addMileageEntry_def save_and_return_def Let_def InvalidReading_def
        state_after_def)

theorem decreasing_reading_rejected_witness:
  "lastOdometer state_1000 = Some 1000 \<and> (900::int) < 1000
   \<and> addMileageEntry Amit 900 ''e2'' 2 state_1000 = Inl InvalidReading
   \<and> state_after state_1000 (addMileageEntry Amit 900 ''e2'' 2 state_1000) = state_1000
   \<and> (\<exists>l'. lastOdometer (state_after state_1000 (addMileageEntry Amit 900 ''e2'' 2 state_1000))
              = Some l' \<and> 1000 \<le> l')"
proof -
  have h1: "lastOdometer state_1000 = Some 1000" by (simp add: state_1000_def)
  have h2: "(900::int) < 1000" by simp
  from decreasing_reading_rejected[OF h1, of 900 Amit "''e2''" 2] h1 h2
  show ?thesis by blast
qed

text \<open>
  Claim C4. For every state and every accepted reading on the non-init path,
  \<^verbatim>\<open>undoLastEntry\<close> after \<^verbatim>\<open>addMileageEntry\<close> restores \<^verbatim>\<open>kmBy\<close> and
  \<^verbatim>\<open>lastOdometer\<close> to exactly their values before the reading.

  The code breaks this at the state a page loads after a first reading of 0
  (\<open>stored_first_reading_0\<close>). \<^verbatim>\<open>undoLastEntry\<close> looks for the prior reading "to
  restore lastOdometer" in the history, and the history row of that reading was stored
  with \<^verbatim>\<open>reading || null\<close>, that is without it. The reading 50 is accepted, the
  undo succeeds, and \<^verbatim>\<open>lastOdometer\<close> comes back as \<^verbatim>\<open>null\<close> instead of 0; the next
  reading would then be taken as a first reading again. \<^verbatim>\<open>kmBy\<close> is not as it was
  either: the property \<^verbatim>\<open>"undefined"\<close> that the reading of John added stays.
\<close>

theorem undo_after_add_loses_lastOdometer:
  "lastOdometer state_reloaded_0 = Some 0
   \<and> kmBy state_reloaded_0 ''undefined'' = None
   \<and> \<not> isl (addMileageEntry John 50 ''e2'' 2 state_reloaded_0)
   \<and> \<not> isl (undoLastEntry
               (state_after state_reloaded_0
                  (addMileageEntry John 50 ''e2'' 2 state_reloaded_0)))
   \<and> lastOdometer
        (state_after
           (state_after state_reloaded_0 (addMileageEntry John 50 ''e2'' 2 state_reloaded_0))
           (undoLastEntry
              (state_after state_reloaded_0
                 (addMileageEntry John 50 ''e2'' 2 state_reloaded_0))))
       = None
   \<and> kmBy
        (state_after
           (state_after state_reloaded_0 (addMileageEntry John 50 ''e2'' 2 state_reloaded_0))
           (undoLastEntry
              (state_after state_reloaded_0
                 (addMileageEntry John 50 ''e2'' 2 state_reloaded_0))))
        ''undefined''
       = Some NaN"
  by (simp add: state_reloaded_0_def init_entry_0_def addMileageEntry_def save_and_return_def
        undoLastEntry_def state_after_def Let_def findLastEntry_def findRestoreTo_def
        OTHER_def OTHER_table_def property_key_def js_plus_def to_number_def undoKmBy_def)

text \<open>
  Claim C5. For every state, \<^verbatim>\<open>resetAndGetMessage\<close> appends a reset entry whose
  snapshot holds the \<^verbatim>\<open>kmBy\<close> and \<^verbatim>\<open>pricePerKm\<close> of the state before the reset,
  with \<^verbatim>\<open>totalKm\<close> the sum of the two users' totals and \<^verbatim>\<open>totalAmount\<close> that sum
  times \<^verbatim>\<open>pricePerKm\<close>; in the new state both users' \<^verbatim>\<open>kmBy\<close> are 0.

  The code computes the sum as \<^verbatim>\<open>kmBy.Amit + kmBy.Ori\<close> and zeroes
  \<^verbatim>\<open>{ Amit: 0, Ori: 0 }\<close>. At the end of the README's flow, where the totals of
  Amit and John are both 0, the snapshot's \<^verbatim>\<open>totalKm\<close> and \<^verbatim>\<open>totalAmount\<close> are
  \<^verbatim>\<open>NaN\<close> instead of 0, and the new state has no total for John at all. The same
  happens at the state of a fresh installation, whose \<^verbatim>\<open>kmBy\<close> has no property
  \<^verbatim>\<open>Ori\<close>.
\<close>

theorem reset_snapshot_is_NaN_and_drops_John:
  "kmBy state_1227 ''Amit'' = Some (Num 0) \<and> kmBy state_1227 ''John'' = Some (Num 0)
   \<and> (case resetAndGetMessage formatCurrency toLocaleString ''e4'' 4 state_1227 of
        (msg, s', ops) \<Rightarrow>
          history s' = history state_1227 @ [last (history s')]
        \<and> entry_type (last (history s')) = TReset
        \<and> entry_snapshot (last (history s')) =
            Some \<lparr>snap_kmBy = kmBy state_1227, snap_pricePerKm = 1 / 2,
                  snap_totalKm = NaN, snap_totalAmount = NaN\<rparr>
        \<and> kmBy s' ''Amit'' = Some (Num 0)
        \<and> kmBy s' ''John'' = None
        \<and> kmBy s' ''Ori'' = Some (Num 0))
   \<and> kmBy initial_state ''Amit'' = Some (Num 0) \<and> kmBy initial_state ''John'' = Some (Num 0)
   \<and> (case resetAndGetMessage formatCurrency toLocaleString ''e1'' 1 initial_state of
        (msg, s', ops) \<Rightarrow>
          entry_snapshot (last (history s')) =
            Some \<lparr>snap_kmBy = kmBy initial_state, snap_pricePerKm = 1 / 2,
                  snap_totalKm = NaN, snap_totalAmount = NaN\<rparr>
        \<and> kmBy s' ''John'' = None)"
  by (simp add: resetAndGetMessage_def Let_def state_1227_def initial_state_def js_plus_def
        js_times_price_def to_number_def)

text \<open>
  Claim C6. For every state, \<^verbatim>\<open>resetAndGetMessage\<close> leaves \<^verbatim>\<open>lastOdometer\<close>,
  \<^verbatim>\<open>lastEnteredBy\<close>, \<^verbatim>\<open>pricePerKm\<close> and \<^verbatim>\<open>version\<close> unchanged, sets
  \<^verbatim>\<open>startingOdometer\<close> to \<^verbatim>\<open>lastOdometer\<close> when that is set and leaves it
  unchanged otherwise; no field other than \<^verbatim>\<open>startingOdometer\<close>, \<^verbatim>\<open>kmBy\<close> and
  \<^verbatim>\<open>history\<close> changes.
\<close>

theorem reset_frame:
  "(case resetAndGetMessage formatCurrency toLocaleString newId ts s of
      (msg, s', ops) \<Rightarrow>
        lastOdometer s' = lastOdometer s \<and> lastEnteredBy s' = lastEnteredBy s
      \<and> pricePerKm s' = pricePerKm s \<and> version s' = version s
      \<and> startingOdometer s' =
          (case lastOdometer s of Some lo \<Rightarrow> lo | None \<Rightarrow> startingOdometer s)
      \<and> s'\<lparr>startingOdometer := startingOdometer s, kmBy := kmBy s, history := history s\<rparr>
          = s)"
  by (simp add: resetAndGetMessage_def Let_def)

text \<open>
  Claim C7. \<^verbatim>\<open>undoLastEntry\<close> fails with \<open>NothingToUndo\<close> if and only if the history
  has no record of type entry, and then the caller's state is unchanged. When the
  history is \<open>pre @ e # post\<close> with \<open>e\<close> its newest entry-type record, the operation
  succeeds, removes \<open>e\<close> and nothing else from the history and from the store, and keeps
  every init and reset record. The identifiers of the history are unique, as the data
  model says of every entry.
\<close>

theorem undo_removes_newest_entry:
  "(undoLastEntry s = Inl NothingToUndo \<longleftrightarrow> (\<forall>x\<in>set (history s). entry_type x \<noteq> TEntry))
   \<and> (undoLastEntry s = Inl NothingToUndo \<longrightarrow> state_after s (undoLastEntry s) = s)
   \<and> (distinct (map entry_id (history s)) \<and> history s = pre @ e # post
        \<and> entry_type e = TEntry \<and> (\<forall>x\<in>set post. entry_type x \<noteq> TEntry)
      \<longrightarrow> (case undoLastEntry s of
             Inl err \<Rightarrow> False
           | Inr (s', ops) \<Rightarrow>
               history s' = pre @ post
             \<and> filter (\<lambda>x. entry_type x \<noteq> TEntry) (history s')
                 = filter (\<lambda>x. entry_type x \<noteq> TEntry) (history s)
             \<and> ops = [RemoveEntry (entry_id e), SaveAppState s']))"
proof (intro conjI impI)
  show "undoLastEntry s = Inl NothingToUndo \<longleftrightarrow> (\<forall>x\<in>set (history s). entry_type x \<noteq> TEntry)"
    by (simp add: undoLastEntry_def Let_def NothingToUndo_def findLastEntry_None_iff[symmetric]
          split: option.splits)
next
  assume "undoLastEntry s = Inl NothingToUndo"
  then show "state_after s (undoLastEntry s) = s"
    by (simp add: state_after_def)
next
  assume a: "distinct (map entry_id (history s)) \<and> history s = pre @ e # post
        \<and> entry_type e = TEntry \<and> (\<forall>x\<in>set post. entry_type x \<noteq> TEntry)"
  then have f: "findLastEntry (history s) = Some e"
    by (simp add: findLastEntry_split)
  from a have hs: "history s = pre @ e # post" by blast
  from a have "distinct (map entry_id (history s))" by blast
  then have "distinct (map entry_id (pre @ e # post))" unfolding hs .
  then have g: "filter (\<lambda>x. entry_id x \<noteq> entry_id e) (history s) = pre @ post"
    unfolding hs by (rule filter_split_distinct)
  from a f g show "case undoLastEntry s of
             Inl err \<Rightarrow> False
           | Inr (s', ops) \<Rightarrow>
               history s' = pre @ post
             \<and> filter (\<lambda>x. entry_type x \<noteq> TEntry) (history s')
                 = filter (\<lambda>x. entry_type x \<noteq> TEntry) (history s)
             \<and> ops = [RemoveEntry (entry_id e), SaveAppState s']"
    by (simp add: undoLastEntry_def Let_def)
qed

theorem undo_removes_newest_entry_witness:
  "distinct (map entry_id (history state_1180))
   \<and> history state_1180 = [init_entry_1000] @ entry_1180 # []
   \<and> entry_type entry_1180 = TEntry
   \<and> undoLastEntry state_1180 \<noteq> Inl NothingToUndo
   \<and> history (state_after state_1180 (undoLastEntry state_1180)) = [init_entry_1000]
   \<and> undoLastEntry initial_state = Inl NothingToUndo
   \<and> state_after initial_state (undoLastEntry initial_state) = initial_state"
proof -
  have h: "distinct (map entry_id (history state_1180))
        \<and> history state_1180 = [init_entry_1000] @ entry_1180 # []
        \<and> entry_type entry_1180 = TEntry \<and> (\<forall>x\<in>set []. entry_type x \<noteq> TEntry)"
    by (simp add: state_1180_def init_entry_1000_def entry_1180_def)
  have n: "\<forall>x\<in>set (history initial_state). entry_type x \<noteq> TEntry"
    by (simp add: initial_state_def)
  from undo_removes_newest_entry[of state_1180 "[init_entry_1000]" entry_1180 "[]"] h
  have c: "case undoLastEntry state_1180 of
             Inl err \<Rightarrow> False
           | Inr (s', ops) \<Rightarrow> history s' = [init_entry_1000] @ []
             \<and> filter (\<lambda>x. entry_type x \<noteq> TEntry) (history s')
                 = filter (\<lambda>x. entry_type x \<noteq> TEntry) (history state_1180)
             \<and> ops = [RemoveEntry (entry_id entry_1180), SaveAppState s']"
    by blast
  from undo_removes_newest_entry[of initial_state] n
  have u: "undoLastEntry initial_state = Inl NothingToUndo"
    and v: "state_after initial_state (undoLastEntry initial_state) = initial_state"
    by blast+
  from c have "undoLastEntry state_1180 \<noteq> Inl NothingToUndo
      \<and> history (state_after state_1180 (undoLastEntry state_1180)) = [init_entry_1000]"
    by (auto simp: state_after_def split: sum.splits)
  with h u v show ?thesis by blast
qed

text \<open>
  Claim C8. For every state and inputs, \<^verbatim>\<open>updateSettings\<close> fails with an
  \<open>InvalidSettings\<close> error when the price is not positive or the starting odometer is
  negative, and the caller's state is unchanged. Otherwise it succeeds: it sets
  \<^verbatim>\<open>pricePerKm\<close>, sets \<^verbatim>\<open>startingOdometer\<close> only when \<^verbatim>\<open>lastOdometer\<close> is unset,
  changes no other field, leaves the history as it is and makes no store call but the
  save of the state.
\<close>

theorem updateSettings_validates_and_gates:
  "(p \<le> 0 \<or> odo < 0 \<longrightarrow>
      (case updateSettings p odo s of Inl e \<Rightarrow> is_InvalidSettings e | Inr _ \<Rightarrow> False)
      \<and> state_after s (updateSettings p odo s) = s)
   \<and> (0 < p \<and> 0 \<le> odo \<longrightarrow>
      (case updateSettings p odo s of
         Inl e \<Rightarrow> False
       | Inr (s', ops) \<Rightarrow>
           pricePerKm s' = p
         \<and> startingOdometer s' =
             (case lastOdometer s of None \<Rightarrow> odo | Some _ \<Rightarrow> startingOdometer s)
         \<and> s' = s\<lparr>pricePerKm := p, startingOdometer := startingOdometer s'\<rparr>
         \<and> history s' = history s
         \<and> ops = [SaveAppState s']))"
  by (auto simp add: updateSettings_def Let_def is_InvalidSettings_def state_after_def)

theorem updateSettings_validates_and_gates_witness:
  "((0::rat) \<le> 0 \<or> (5::int) < 0)
   \<and> updateSettings 0 5 state_1000 = Inl (Error ''Price per km must be greater than 0.'')
   \<and> state_after state_1000 (updateSettings 0 5 state_1000) = state_1000
   \<and> (0::rat) < 2 \<and> (0::int) \<le> 5
   \<and> updateSettings 2 5 state_1000
        = Inr (state_1000\<lparr>pricePerKm := 2\<rparr>, [SaveAppState (state_1000\<lparr>pricePerKm := 2\<rparr>)])
   \<and> updateSettings 2 5 initial_state
        = Inr (initial_state\<lparr>pricePerKm := 2, startingOdometer := 5\<rparr>,
               [SaveAppState (initial_state\<lparr>pricePerKm := 2, startingOdometer := 5\<rparr>)])"
  using updateSettings_validates_and_gates[of 0 5 state_1000]
    updateSettings_validates_and_gates[of 2 5 state_1000]
    updateSettings_validates_and_gates[of 2 5 initial_state]
  by (simp add: updateSettings_def state_1000_def initial_state_def Let_def state_after_def)

text \<open>
  Claim C9. For every state, the message of \<^verbatim>\<open>resetAndGetMessage\<close> is the header, the
  price line, the \<^verbatim>\<open>Totals since last reset:\<close> line, one line per user with that
  user's km and amount, a \<^verbatim>\<open>Total\<close> line with the total km and amount, an
  \<^verbatim>\<open>Odometer\<close> line exactly when \<^verbatim>\<open>lastOdometer\<close> is set, and
  \<^verbatim>\<open>Please settle accordingly.\<close>

  The lines and their order are as claimed, but the two user lines are written for
  \<^verbatim>\<open>Amit\<close> and \<^verbatim>\<open>Ori\<close>. At the end of the README's flow the message has no line
  for John, its second user line reads \<^verbatim>\<open>- Ori: NaN km\<close> with the amount of
  \<^verbatim>\<open>NaN\<close>, and the total line reads \<^verbatim>\<open>Total: NaN km\<close>.
\<close>

theorem settlement_message_has_no_line_for_John:
  "fst (resetAndGetMessage formatCurrency toLocaleString ''e4'' 4 state_1227) =
     ''Fuel split reset ('' @ toLocaleString 4 @ '')'' @ [CHR 0x0A]
     @ ''Price per km: '' @ formatCurrency (Num (1 / 2)) @ [CHR 0x0A]
     @ ''Totals since last reset:'' @ [CHR 0x0A]
     @ ''- Amit: 0 km => '' @ formatCurrency (Num 0) @ [CHR 0x0A]
     @ ''- Ori: NaN km => '' @ formatCurrency NaN @ [CHR 0x0A]
     @ ''Total: NaN km => '' @ formatCurrency NaN @ [CHR 0x0A]
     @ ''Odometer: 1227 km'' @ [CHR 0x0A]
     @ ''Please settle accordingly.''"
proof -
  have n: "show_int 0 = ''0''" "show_int 1227 = ''1227''"
    by (simp_all add: show_int_def show_nat.simps digit_char_def)
  show ?thesis
    by (simp add: resetAndGetMessage_def settlement_message_def Let_def state_1227_def
          js_plus_def js_times_price_def to_number_def show_js_def n)
qed




end
